theory Spec2Isabelle
  imports Main
begin

section \<open>Asynchronous code as state passing with exceptions\<close>

text \<open>
  Every \<^verbatim>\<open>async\<close> function of the sources is a state transformer that either returns a
  value or throws: \<open>Inl e\<close> is a rejected promise (a thrown value), \<open>Inr a\<close> a fulfilled
  one. The state that was reached when the exception was thrown is kept, as in
  JavaScript. Calls to \<^verbatim>\<open>Logger\<close> only print and are left out.
\<close>

datatype error =
    StorageError
  | TypeError
  | NetworkError
  | RefreshFailed
  | TokenParseError
  | AppsFetchFailed nat
  | JsonError
  | InvalidValue

type_synonym ('s, 'a) io = "'s \<Rightarrow> (error + 'a) \<times> 's"

definition ret :: "'a \<Rightarrow> ('s, 'a) io" where
  "ret a s = (Inr a, s)"

definition throw :: "error \<Rightarrow> ('s, 'a) io" where
  "throw e s = (Inl e, s)"

definition andThen :: "('s, 'a) io \<Rightarrow> ('a \<Rightarrow> ('s, 'b) io) \<Rightarrow> ('s, 'b) io" where
  "andThen m f s = (case m s of (Inl e, s') \<Rightarrow> (Inl e, s') | (Inr a, s') \<Rightarrow> f a s')"

definition tryCatch :: "('s, 'a) io \<Rightarrow> (error \<Rightarrow> ('s, 'a) io) \<Rightarrow> ('s, 'a) io" where
  "tryCatch m h s = (case m s of (Inl e, s') \<Rightarrow> h e s' | (Inr a, s') \<Rightarrow> (Inr a, s'))"

definition modify :: "('s \<Rightarrow> 's) \<Rightarrow> ('s, unit) io" where
  "modify f s = (Inr (), f s)"

text \<open>
  \<^verbatim>\<open>await Promise.all([p, q])\<close> over two writes: both writes are started, so the second one
  runs even when the first is rejected; the result is rejected when either is.
\<close>

definition promiseAll2 :: "('s, unit) io \<Rightarrow> ('s, unit) io \<Rightarrow> ('s, unit) io" where
  "promiseAll2 p q s =
     (case p s of (r1, s1) \<Rightarrow>
      case q s1 of (r2, s2) \<Rightarrow>
        (case r1 of Inl e \<Rightarrow> Inl e | Inr _ \<Rightarrow> r2, s2))"

text \<open>JavaScript truthiness of a possibly missing string, and \<^verbatim>\<open>x || d\<close>.\<close>

definition truthy :: "string option \<Rightarrow> bool" where
  "truthy x = (case x of None \<Rightarrow> False | Some v \<Rightarrow> v \<noteq> [])"

definition orElse :: "string option \<Rightarrow> string \<Rightarrow> string" where
  "orElse x d = (case x of None \<Rightarrow> d | Some v \<Rightarrow> if v = [] then d else v)"


section \<open>The session manager: \<^verbatim>\<open>src/utils/auth.js\<close>\<close>

subsection \<open>Constants\<close>

abbreviation AUTH_TOKEN :: string where "AUTH_TOKEN \<equiv> ''auth_token''"
abbreviation REFRESH_TOKEN :: string where "REFRESH_TOKEN \<equiv> ''refresh_token''"
abbreviation INSTANCE_URL :: string where "INSTANCE_URL \<equiv> ''instance_url''"
abbreviation INSTANCE_TYPE :: string where "INSTANCE_TYPE \<equiv> ''instance_type''"
abbreviation API_PREFIX :: string where "API_PREFIX \<equiv> ''api_prefix''"
abbreviation PUBLIC_API_PREFIX :: string where "PUBLIC_API_PREFIX \<equiv> ''public_api_prefix''"
abbreviation COOKIES :: string where "COOKIES \<equiv> ''auth_cookies''"
abbreviation BASE_URL :: string where "BASE_URL \<equiv> ''base_url''"

abbreviation CLOUD :: string where "CLOUD \<equiv> ''cloud''"
abbreviation CUSTOM :: string where "CUSTOM \<equiv> ''custom''"

abbreviation CLOUD_INSTANCE_URL :: string where
  "CLOUD_INSTANCE_URL \<equiv> ''https://cloud.dify.ai''"

subsection \<open>State: the credential store and the static fields of class Auth\<close>

text \<open>
  \<open>asyncStorage\<close> is the content of AsyncStorage, one string per key. \<open>failing\<close> is the
  set of keys on which the store currently rejects its operations (a full or broken
  device store); no function of the program changes it. The other fields are the
  static fields of class \<^verbatim>\<open>Auth\<close>.
\<close>

record auth =
  asyncStorage :: "string \<rightharpoonup> string"
  failing :: "string set"
  isAuthenticated :: bool
  instanceUrl :: string
  instanceType :: string
  apiPrefix :: string
  publicApiPrefix :: string
  cookies :: string
  baseUrl :: string

text \<open>The class as loaded: the static field initialisers over a given store.\<close>

definition Auth_loaded :: "(string \<rightharpoonup> string) \<Rightarrow> string set \<Rightarrow> auth" where
  "Auth_loaded st bad =
     \<lparr> asyncStorage = st, failing = bad, isAuthenticated = False,
       instanceUrl = CLOUD_INSTANCE_URL, instanceType = [], apiPrefix = [],
       publicApiPrefix = [], cookies = [], baseUrl = [] \<rparr>"

subsection \<open>AsyncStorage\<close>

definition getItem :: "string \<Rightarrow> (auth, string option) io" where
  "getItem k w =
     (if k \<in> failing w then (Inl StorageError, w) else (Inr (asyncStorage w k), w))"

definition setItem :: "string \<Rightarrow> string \<Rightarrow> (auth, unit) io" where
  "setItem k v w =
     (if k \<in> failing w then (Inl StorageError, w)
      else (Inr (), w\<lparr>asyncStorage := (asyncStorage w)(k \<mapsto> v)\<rparr>))"

text \<open>
  \<^verbatim>\<open>AsyncStorage.setItem\<close> called with a value that may be \<^verbatim>\<open>undefined\<close> (\<open>None\<close>): the store
  rejects a missing value and writes nothing.
\<close>

definition setItemValue :: "string \<Rightarrow> string option \<Rightarrow> (auth, unit) io" where
  "setItemValue k v = (case v of None \<Rightarrow> throw InvalidValue | Some str \<Rightarrow> setItem k str)"

definition removeKeys :: "string list \<Rightarrow> (string \<rightharpoonup> string) \<Rightarrow> (string \<rightharpoonup> string)" where
  "removeKeys ks m = fold (\<lambda>k m'. m'(k := None)) ks m"

text \<open>
  \<^verbatim>\<open>multiRemove\<close> is one store operation: it is rejected, removing nothing, when the store
  rejects one of its keys; removing a key that is not stored is not an error.
\<close>

definition multiRemove :: "string list \<Rightarrow> (auth, unit) io" where
  "multiRemove ks w =
     (if set ks \<inter> failing w = {} then (Inr (), w\<lparr>asyncStorage := removeKeys ks (asyncStorage w)\<rparr>)
      else (Inl StorageError, w))"

subsection \<open>The methods of class Auth\<close>

definition logoutKeys :: "string list" where
  "logoutKeys =
     [AUTH_TOKEN, REFRESH_TOKEN, INSTANCE_URL, INSTANCE_TYPE, API_PREFIX,
      PUBLIC_API_PREFIX, COOKIES, BASE_URL, ''apps'', ''isAuthenticated'']"

definition logout :: "(auth, unit) io" where
  "logout =
     tryCatch
       (andThen (multiRemove logoutKeys) (\<lambda>_.
        modify (\<lambda>w. w\<lparr>isAuthenticated := False, instanceType := [], apiPrefix := [],
                       publicApiPrefix := [], cookies := [], baseUrl := []\<rparr>)))
       (\<lambda>e. throw e)"

definition setApiPrefix :: "string \<Rightarrow> string option \<Rightarrow> (auth, unit) io" where
  "setApiPrefix prefix publicPrefix =
     tryCatch
       (andThen (promiseAll2 (setItem API_PREFIX prefix)
                             (setItem PUBLIC_API_PREFIX (orElse publicPrefix prefix))) (\<lambda>_.
        modify (\<lambda>w. w\<lparr>apiPrefix := prefix, publicApiPrefix := orElse publicPrefix prefix\<rparr>)))
       (\<lambda>e. throw e)"

definition getApiPrefix :: "(auth, string) io" where
  "getApiPrefix =
     andThen (\<lambda>w. if apiPrefix w = []
                   then modify (\<lambda>w. w\<lparr>apiPrefix := CLOUD_INSTANCE_URL @ ''/console/api''\<rparr>) w
                   else ret () w) (\<lambda>_ w.
     ret (apiPrefix w) w)"

definition getPublicApiPrefix :: "(auth, string) io" where
  "getPublicApiPrefix w =
     ret (if publicApiPrefix w \<noteq> [] then publicApiPrefix w
          else if apiPrefix w \<noteq> [] then apiPrefix w else []) w"

text \<open>
  The two arguments are what the caller read from the refresh answer, \<open>None\<close> for a field
  the answer does not have.
\<close>

definition setAuthTokens :: "string option \<Rightarrow> string option \<Rightarrow> (auth, unit) io" where
  "setAuthTokens accessToken refreshToken =
     tryCatch
       (andThen (promiseAll2 (setItemValue AUTH_TOKEN accessToken)
                             (setItemValue REFRESH_TOKEN refreshToken)) (\<lambda>_.
        modify (\<lambda>w. w\<lparr>isAuthenticated := True\<rparr>)))
       (\<lambda>e. throw e)"

definition setCookies :: "string \<Rightarrow> (auth, unit) io" where
  "setCookies cookieString =
     tryCatch
       (andThen (setItem COOKIES cookieString) (\<lambda>_.
        modify (\<lambda>w. w\<lparr>cookies := cookieString, isAuthenticated := True\<rparr>)))
       (\<lambda>e. throw e)"

definition getCookies :: "(auth, string) io" where
  "getCookies w = ret (cookies w) w"

definition getInstanceType :: "(auth, string) io" where
  "getInstanceType =
     tryCatch (andThen (getItem INSTANCE_TYPE) (\<lambda>t. ret (orElse t [])))
              (\<lambda>e. ret [])"

definition setInstanceType :: "string \<Rightarrow> (auth, unit) io" where
  "setInstanceType t =
     tryCatch
       (andThen (setItem INSTANCE_TYPE t) (\<lambda>_. modify (\<lambda>w. w\<lparr>instanceType := t\<rparr>)))
       (\<lambda>e. ret ())"

definition getBaseUrl :: "(auth, string) io" where
  "getBaseUrl =
     tryCatch (andThen (getItem BASE_URL) (\<lambda>u. ret (orElse u [])))
              (\<lambda>e. ret [])"

definition setBaseUrl :: "string \<Rightarrow> (auth, unit) io" where
  "setBaseUrl url =
     tryCatch
       (andThen (setItem BASE_URL url) (\<lambda>_. modify (\<lambda>w. w\<lparr>baseUrl := url\<rparr>)))
       (\<lambda>e. ret ())"

definition checkAuthState :: "(auth, bool) io" where
  "checkAuthState =
     andThen (getItem ''isAuthenticated'') (\<lambda>stored.
     andThen (case stored of
                None \<Rightarrow> ret ()
              | Some v \<Rightarrow> modify (\<lambda>w. w\<lparr>isAuthenticated := (v = ''true'')\<rparr>)) (\<lambda>_ w.
     ret (isAuthenticated w) w))"

definition setIsAuthenticated :: "bool \<Rightarrow> (auth, unit) io" where
  "setIsAuthenticated b =
     andThen (modify (\<lambda>w. w\<lparr>isAuthenticated := b\<rparr>)) (\<lambda>_.
     setItem ''isAuthenticated'' (if b then ''true'' else ''false''))"

definition getSignInUrl :: "auth \<Rightarrow> string" where
  "getSignInUrl w = CLOUD_INSTANCE_URL @ ''/signin''"

definition getToken :: "(auth, string option) io" where
  "getToken = tryCatch (getItem AUTH_TOKEN) (\<lambda>e. ret None)"


subsection \<open>The platform around the session manager\<close>

text \<open>
  What the program reads from outside itself. \<open>dateNow\<close> is \<^verbatim>\<open>Date.now()\<close> in milliseconds.
  \<open>decodePayload token\<close> stands for \<^verbatim>\<open>JSON.parse(atob(token.split('.')[1]))\<close> followed by the
  read of \<^verbatim>\<open>.exp\<close>: \<open>Malformed\<close> when one of these throws, otherwise the \<^verbatim>\<open>exp\<close> claim in
  seconds, \<open>None\<close> when \<^verbatim>\<open>exp * 1000\<close> is not a number. \<open>newURL u\<close> is \<^verbatim>\<open>new URL(u)\<close>, \<open>None\<close>
  when it throws.

  An answer to \<^verbatim>\<open>fetch\<close> is a status and a body. The body is what \<^verbatim>\<open>await response.json()\<close>
  makes of it: \<open>NotJson\<close> when that throws, \<open>JsonNull\<close> for the value \<^verbatim>\<open>null\<close> (reading a
  property of it throws a TypeError), otherwise the value. \<open>fetchRefresh url refreshToken\<close>
  is the answer to the POST of \<^verbatim>\<open>{refresh_token}\<close> to \<open>url\<close>, its value read through the two
  fields \<^verbatim>\<open>access_token\<close> and \<^verbatim>\<open>refresh_token\<close>, each \<open>None\<close> when the value does not have it.
  \<open>fetchApps url authorization\<close> is the answer to the GET of \<open>url\<close> with that
  \<^verbatim>\<open>Authorization\<close> header, its value given as the text \<^verbatim>\<open>JSON.stringify\<close> makes of it.
\<close>

datatype jwt_payload = Malformed | Payload "int option"

datatype 'b body = NotJson | JsonNull | Json 'b

datatype 'b response = NetworkFailure | Response nat "'b body"

record token_pair =
  access_token :: "string option"
  refresh_token :: "string option"

record url =
  pathname :: string
  hostname :: string
  origin :: string
  searchParams :: "(string \<times> string) list"

record platform =
  dateNow :: int
  decodePayload :: "string \<Rightarrow> jwt_payload"
  fetchRefresh :: "string \<Rightarrow> string \<Rightarrow> token_pair response"
  newURL :: "string \<Rightarrow> url option"
  fetchApps :: "string \<Rightarrow> string \<Rightarrow> string response"

text \<open>\<^verbatim>\<open>response.ok\<close>: the status is in the range 200 to 299.\<close>

definition ok :: "nat \<Rightarrow> bool" where
  "ok status = (200 \<le> status \<and> status \<le> 299)"

subsection \<open>Token refresh and start-up\<close>

definition refreshAuthToken :: "platform \<Rightarrow> string \<Rightarrow> (auth, bool) io" where
  "refreshAuthToken env refreshToken =
     tryCatch
       (andThen (\<lambda>w. case fetchRefresh env (apiPrefix w @ ''/oauth/token/refresh'') refreshToken of
                        NetworkFailure \<Rightarrow> throw NetworkError w
                      | Response status answer \<Rightarrow>
                          if \<not> ok status then throw RefreshFailed w
                          else (case answer of
                                  NotJson \<Rightarrow> throw JsonError w
                                | JsonNull \<Rightarrow> throw TypeError w
                                | Json data \<Rightarrow> ret data w)) (\<lambda>data.
        andThen (setAuthTokens (access_token data) (refresh_token data)) (\<lambda>_.
        ret True)))
       (\<lambda>e. andThen logout (\<lambda>_. ret False))"

text \<open>The expiry check of \<^verbatim>\<open>initialize\<close>, lines 81 to 99: it runs only for a truthy token.\<close>

definition checkExpiry :: "platform \<Rightarrow> string option \<Rightarrow> string option \<Rightarrow> (auth, unit) io" where
  "checkExpiry env token refreshToken =
     (case token of
        None \<Rightarrow> ret ()
      | Some t \<Rightarrow>
          if t = [] then ret ()
          else
            tryCatch
              (case decodePayload env t of
                 Malformed \<Rightarrow> throw TokenParseError
               | Payload None \<Rightarrow> ret ()
               | Payload (Some exp) \<Rightarrow>
                   if exp * 1000 \<le> dateNow env
                   then (case refreshToken of
                           None \<Rightarrow> logout
                         | Some r \<Rightarrow>
                             if r = [] then logout
                             else andThen (refreshAuthToken env r) (\<lambda>_. ret ()))
                   else ret ())
              (\<lambda>e. logout))"

text \<open>The assignments of \<^verbatim>\<open>initialize\<close>, lines 73 to 79.\<close>

definition assignFields ::
  "string option \<Rightarrow> string option \<Rightarrow> string option \<Rightarrow> string option \<Rightarrow> string option \<Rightarrow>
   string option \<Rightarrow> string option \<Rightarrow> auth \<Rightarrow> auth" where
  "assignFields token url itype prefix publicPrefix cookieString base w =
     w\<lparr>isAuthenticated := truthy token \<and> truthy cookieString,
       instanceUrl := orElse url CLOUD_INSTANCE_URL,
       instanceType := orElse itype CLOUD,
       apiPrefix := orElse prefix [],
       publicApiPrefix := orElse publicPrefix [],
       cookies := orElse cookieString [],
       baseUrl := orElse base []\<rparr>"

text \<open>The values of the \<^verbatim>\<open>STORAGE_KEYS\<close> object, in the order \<^verbatim>\<open>initialize\<close> reads them.\<close>

definition STORAGE_KEYS :: "string list" where
  "STORAGE_KEYS =
     [AUTH_TOKEN, REFRESH_TOKEN, INSTANCE_URL, INSTANCE_TYPE, API_PREFIX,
      PUBLIC_API_PREFIX, COOKIES, BASE_URL]"

definition initialize :: "platform \<Rightarrow> (auth, bool) io" where
  "initialize env =
     tryCatch
       (andThen (getItem AUTH_TOKEN) (\<lambda>token.
        andThen (getItem REFRESH_TOKEN) (\<lambda>refreshToken.
        andThen (getItem INSTANCE_URL) (\<lambda>url.
        andThen (getItem INSTANCE_TYPE) (\<lambda>itype.
        andThen (getItem API_PREFIX) (\<lambda>prefix.
        andThen (getItem PUBLIC_API_PREFIX) (\<lambda>publicPrefix.
        andThen (getItem COOKIES) (\<lambda>cookieString.
        andThen (getItem BASE_URL) (\<lambda>base.
        andThen (modify (assignFields token url itype prefix publicPrefix cookieString base)) (\<lambda>_.
        andThen (checkExpiry env token refreshToken) (\<lambda>_ w.
        ret (isAuthenticated w) w)))))))))))
       (\<lambda>e. ret False)"


section \<open>The login screen: \<^verbatim>\<open>src/components/auth/LoginScreen.js\<close>\<close>

text \<open>
  The component's state: its React state and ref, the session manager it calls, and what
  it sends out: the alerts shown, the URLs of the GET requests issued with
  \<^verbatim>\<open>fetch\<close>, and the routes passed to \<^verbatim>\<open>navigation.replace\<close>.
\<close>

record loginScreen =
  session :: auth
  showWebView :: bool
  showCustomDomain :: bool
  customDomain :: string
  webViewUrl :: string
  loginProcessed :: bool
  alerts :: "(string \<times> string) list"
  requests :: "string list"
  replaced :: "string list"

definition LoginScreen_mounted :: "auth \<Rightarrow> loginScreen" where
  "LoginScreen_mounted w =
     \<lparr> session = w, showWebView = False, showCustomDomain = False, customDomain = [],
       webViewUrl = [], loginProcessed = False, alerts = [], requests = [], replaced = [] \<rparr>"

definition onAuth :: "(auth, 'a) io \<Rightarrow> (loginScreen, 'a) io" where
  "onAuth m s = (case m (session s) of (r, w') \<Rightarrow> (r, s\<lparr>session := w'\<rparr>))"

definition alert :: "string \<Rightarrow> string \<Rightarrow> (loginScreen, unit) io" where
  "alert title msg = modify (\<lambda>s. s\<lparr>alerts := alerts s @ [(title, msg)]\<rparr>)"

text \<open>
  A JavaScript call that passes more arguments than the callee declares parameters: the
  surplus argument is evaluated and dropped.
\<close>

definition surplus :: "'b \<Rightarrow> 'a \<Rightarrow> 'a" where
  "surplus extra call = call"

text \<open>
  The static methods class \<^verbatim>\<open>Auth\<close> declares. A call \<^verbatim>\<open>Auth.name(...)\<close> runs the method of
  that name; for a name the class does not declare, \<^verbatim>\<open>Auth.name\<close> is \<^verbatim>\<open>undefined\<close> and the
  call throws a TypeError.
\<close>

definition Auth_methods :: "string list" where
  "Auth_methods =
     [''initialize'', ''setApiPrefix'', ''getApiPrefix'', ''getPublicApiPrefix'',
      ''setAuthTokens'', ''refreshAuthToken'', ''setCookies'', ''getCookies'',
      ''getInstanceType'', ''setInstanceType'', ''getBaseUrl'', ''setBaseUrl'', ''logout'',
      ''checkAuthState'', ''setIsAuthenticated'', ''getSignInUrl'', ''getToken'']"

definition callStatic :: "string \<Rightarrow> (auth, 'a) io \<Rightarrow> (auth, 'a) io" where
  "callStatic name method = (if name \<in> set Auth_methods then method else throw TypeError)"

definition handleCloudLogin :: "(loginScreen, unit) io" where
  "handleCloudLogin =
     tryCatch
       (andThen (onAuth (setInstanceType CLOUD)) (\<lambda>_.
        andThen (\<lambda>s. ret (getSignInUrl (session s)) s) (\<lambda>signInUrl.
        modify (\<lambda>s. s\<lparr>webViewUrl := signInUrl, showWebView := True\<rparr>))))
       (\<lambda>e. alert ''Error'' ''Failed to start login process'')"

text \<open>\<^verbatim>\<open>customDomain.startsWith('http') ? customDomain : `https://${customDomain}`\<close>\<close>

definition normalizeDomain :: "string \<Rightarrow> string" where
  "normalizeDomain d = (if take 4 d = ''http'' then d else ''https://'' @ d)"

definition handleCustomLogin :: "(loginScreen, unit) io" where
  "handleCustomLogin s =
     (if customDomain s = [] then alert ''Error'' ''Please enter your Dify instance domain'' s
      else
        tryCatch
          (let domain = normalizeDomain (customDomain s) in
           andThen (onAuth (surplus domain (setInstanceType CUSTOM))) (\<lambda>_.
           andThen (\<lambda>s. ret (getSignInUrl (session s)) s) (\<lambda>signInUrl.
           modify (\<lambda>s. s\<lparr>webViewUrl := signInUrl, showWebView := True\<rparr>))))
          (\<lambda>e. alert ''Error'' ''Failed to start login process'') s)"

text \<open>The messages the page posts, after \<^verbatim>\<open>JSON.parse\<close>, by their \<^verbatim>\<open>type\<close> field.\<close>

datatype message =
    CookiesMessage string
  | ApiPrefixMessage string "string option"
  | OtherMessage

definition handleWebViewMessage :: "message \<Rightarrow> (loginScreen, unit) io" where
  "handleWebViewMessage data =
     tryCatch
       (case data of
          CookiesMessage cookieString \<Rightarrow>
            tryCatch (onAuth (callStatic ''setCookies'' (setCookies cookieString))) (\<lambda>e. ret ())
        | ApiPrefixMessage prefix publicPrefix \<Rightarrow>
            tryCatch (onAuth (callStatic ''setApiPrefixes'' (setApiPrefix prefix publicPrefix)))
                     (\<lambda>e. ret ())
        | OtherMessage \<Rightarrow> ret ())
       (\<lambda>e. ret ())"

text \<open>\<^verbatim>\<open>url.includes(part)\<close>\<close>

fun includes_js :: "string \<Rightarrow> string \<Rightarrow> bool" where
  "includes_js [] part = (part = [])"
| "includes_js (c # cs) part = (take (length part) (c # cs) = part \<or> includes_js cs part)"

text \<open>
  The body of the inner \<^verbatim>\<open>try\<close> of \<^verbatim>\<open>handleWebViewNavigation\<close> (lines 137 to 184, and the
  same text again at lines 195 to 242), in its three steps. First, lines 142 to 160: with
  an access token in the URL, the tokens are written to the store directly and the
  instance type and base URL are set from the URL.
\<close>

definition saveSession :: "url \<Rightarrow> string option \<Rightarrow> string option \<Rightarrow> (loginScreen, unit) io" where
  "saveSession urlObj accessToken refreshToken =
     (if truthy accessToken
      then andThen (onAuth (setItem ''auth_token'' (orElse accessToken []))) (\<lambda>_.
           andThen (if truthy refreshToken
                    then onAuth (setItem ''refresh_token'' (orElse refreshToken []))
                    else ret ()) (\<lambda>_.
           andThen (onAuth (setInstanceType
                      (if hostname urlObj = ''cloud.dify.ai'' then CLOUD else CUSTOM))) (\<lambda>_.
           onAuth (setBaseUrl (origin urlObj)))))
      else ret ())"

text \<open>
  Lines 166 to 179: the GET of \<^verbatim>\<open>{apiPrefix}/apps\<close>. The request is issued (and logged in
  \<open>requests\<close>) whatever its answer; a missing token is sent as \<^verbatim>\<open>Bearer null\<close>. Then
  \<^verbatim>\<open>await response.json()\<close>, and \<^verbatim>\<open>apps.length\<close> for the log line, which throws on \<^verbatim>\<open>null\<close>.
  The result is the text \<^verbatim>\<open>JSON.stringify(apps)\<close> that line 183 stores.
\<close>

definition fetchAppList :: "platform \<Rightarrow> string \<Rightarrow> string option \<Rightarrow> (loginScreen, string) io" where
  "fetchAppList env prefix accessToken s =
     (let s' = s\<lparr>requests := requests s @ [prefix @ ''/apps'']\<rparr> in
      case fetchApps env (prefix @ ''/apps'')
             (''Bearer '' @ (case accessToken of None \<Rightarrow> ''null'' | Some t \<Rightarrow> t)) of
        NetworkFailure \<Rightarrow> throw NetworkError s'
      | Response status answer \<Rightarrow>
          if \<not> ok status then throw (AppsFetchFailed status) s'
          else (case answer of
                  NotJson \<Rightarrow> throw JsonError s'
                | JsonNull \<Rightarrow> throw TypeError s'
                | Json apps \<Rightarrow> ret apps s'))"

text \<open>Lines 181 to 184; \<open>apps\<close> is the text \<^verbatim>\<open>JSON.stringify(apps)\<close>.\<close>

definition finishLogin :: "string \<Rightarrow> (loginScreen, unit) io" where
  "finishLogin apps =
     andThen (onAuth (setIsAuthenticated True)) (\<lambda>_.
     andThen (modify (\<lambda>s. s\<lparr>showWebView := False\<rparr>)) (\<lambda>_.
     andThen (onAuth (setItem ''apps'' apps)) (\<lambda>_.
     modify (\<lambda>s. s\<lparr>replaced := replaced s @ [''Login'']\<rparr>))))"

definition completeLogin :: "platform \<Rightarrow> string \<Rightarrow> (loginScreen, unit) io" where
  "completeLogin env u =
     andThen (\<lambda>s. case newURL env u of None \<Rightarrow> throw TypeError s | Some urlObj \<Rightarrow> ret urlObj s)
       (\<lambda>urlObj.
     let accessToken = map_of (searchParams urlObj) ''access_token'';
         refreshToken = map_of (searchParams urlObj) ''refresh_token''
     in
     andThen (saveSession urlObj accessToken refreshToken) (\<lambda>_.
     andThen (onAuth getApiPrefix) (\<lambda>prefix.
     andThen (fetchAppList env prefix accessToken) (\<lambda>apps.
     finishLogin apps))))"

text \<open>
  \<open>u\<close> is \<^verbatim>\<open>navState.url\<close>, the empty string when it is missing. The one-shot flag is
  tested and set before the handler's first \<^verbatim>\<open>await\<close>, so a second event cannot slip in
  between the test and the set.
\<close>

definition handleWebViewNavigation :: "platform \<Rightarrow> string \<Rightarrow> (loginScreen, unit) io" where
  "handleWebViewNavigation env u =
     tryCatch
       (\<lambda>s. if u = [] then ret () s
             else
               (case newURL env u of
                  Some parsedUrl \<Rightarrow>
                    if pathname parsedUrl = ''/apps''
                    then if loginProcessed s then ret () s
                         else tryCatch (completeLogin env u)
                                (\<lambda>e. alert ''Error'' ''Failed to complete login process'')
                                (s\<lparr>loginProcessed := True\<rparr>)
                    else ret () s
                | None \<Rightarrow>
                    if includes_js u ''/apps'' \<and> \<not> loginProcessed s
                    then tryCatch (completeLogin env u)
                           (\<lambda>e. alert ''Error'' ''Failed to complete login process'')
                           (s\<lparr>loginProcessed := True\<rparr>)
                    else ret () s))
       (\<lambda>e. ret ())"

text \<open>The navigation events of one login, handled in the order they fire.\<close>

definition navigations :: "platform \<Rightarrow> string list \<Rightarrow> loginScreen \<Rightarrow> loginScreen" where
  "navigations env us s = fold (\<lambda>u s'. snd (handleWebViewNavigation env u s')) us s"


section \<open>The navigation gate: \<^verbatim>\<open>src/navigation/AppNavigator.js\<close>\<close>

record navigator =
  nav_isLoading :: bool
  nav_isAuthenticated :: bool

datatype surface = Blank | LoginStack | AuthenticatedStack

definition rendered :: "navigator \<Rightarrow> surface" where
  "rendered n =
     (if nav_isLoading n then Blank
      else if \<not> nav_isAuthenticated n then LoginStack else AuthenticatedStack)"

text \<open>
  One tick of the one-second interval: \<^verbatim>\<open>setIsAuthenticated(await Auth.checkAuthState())\<close>.
  The callback has no \<^verbatim>\<open>catch\<close>: when the read throws, the component's state stays.
\<close>

definition pollTick :: "navigator \<times> auth \<Rightarrow> navigator \<times> auth" where
  "pollTick p =
     (case p of (n, w) \<Rightarrow>
        (case checkAuthState w of
           (Inr isAuth, w') \<Rightarrow> (n\<lparr>nav_isAuthenticated := isAuth\<rparr>, w')
         | (Inl e, w') \<Rightarrow> (n, w')))"




section \<open>Observations on the login screen\<close>

text \<open>
  Two observations on a step of the login screen, used to follow the one-shot flag and
  the request log through the handlers: \<open>quiet m\<close> says that \<open>m\<close> leaves both alone;
  \<open>oneRequest m\<close> says that \<open>m\<close> leaves the flag alone and issues at most one request.
\<close>

definition quiet :: "(loginScreen, 'a) io \<Rightarrow> bool" where
  "quiet m =
     (\<forall>s. requests (snd (m s)) = requests s \<and> loginProcessed (snd (m s)) = loginProcessed s)"

definition oneRequest :: "(loginScreen, 'a) io \<Rightarrow> bool" where
  "oneRequest m =
     (\<forall>s. length (requests (snd (m s))) \<le> Suc (length (requests s)) \<and>
          loginProcessed (snd (m s)) = loginProcessed s)"

text \<open>The condition of the handler's first branch: the URL parses and its path is \<^verbatim>\<open>/apps\<close>.\<close>

definition landsOnApps :: "platform \<Rightarrow> string \<Rightarrow> bool" where
  "landsOnApps env u =
     (u \<noteq> [] \<and> (case newURL env u of None \<Rightarrow> False | Some parsedUrl \<Rightarrow> pathname parsedUrl = ''/apps''))"


section \<open>Concrete inputs\<close>

text \<open>
  A platform and URLs on which the theorems below are evaluated: the clock stands at
  1700000000000 ms; of the three tokens it decodes, one expires later, one has expired
  and one carries no \<^verbatim>\<open>exp\<close>; the refresh endpoint under \<^verbatim>\<open>https://x/api\<close> answers the refresh
  token \<^verbatim>\<open>r1\<close> with 200 and a new pair, the refresh token \<^verbatim>\<open>r204\<close> with 204 and no body, and
  every other request with 401. Only the absolute landing URL parses.
\<close>

definition sampleLanding :: string where
  "sampleLanding = ''https://cloud.dify.ai/apps?access_token=abc&refresh_token=def''"

definition sampleRelative :: string where
  "sampleRelative = ''/apps?access_token=abc&refresh_token=def''"

definition samplePlatform :: platform where
  "samplePlatform =
     \<lparr> dateNow = 1700000000000,
       decodePayload = (\<lambda>t. if t = ''h.fresh.s'' then Payload (Some 1800000000)
                            else if t = ''h.stale.s'' then Payload (Some 1600000000)
                            else if t = ''h.noexp.s'' then Payload None
                            else Malformed),
       fetchRefresh = (\<lambda>u r. if u = ''https://x/api/oauth/token/refresh'' \<and> r = ''r1''
                              then Response 200 (Json \<lparr>access_token = Some ''h.fresh.s'',
                                                       refresh_token = Some ''r2''\<rparr>)
                              else if u = ''https://x/api/oauth/token/refresh'' \<and> r = ''r204''
                              then Response 204 NotJson
                              else Response 401 NotJson),
       newURL = (\<lambda>u. if u = sampleLanding
                      then Some \<lparr>pathname = ''/apps'', hostname = ''cloud.dify.ai'',
                                 origin = ''https://cloud.dify.ai'',
                                 searchParams = [(''access_token'', ''abc''),
                                                 (''refresh_token'', ''def'')]\<rparr>
                      else None),
       fetchApps = (\<lambda>u a. if u = ''https://cloud.dify.ai/console/api/apps'' \<and> a = ''Bearer abc''
                           then Response 200 (Json ''[]'') else Response 401 NotJson) \<rparr>"


section \<open>Properties\<close>

lemmas io_defs = ret_def throw_def andThen_def tryCatch_def modify_def promiseAll2_def

subsection \<open>The credential store\<close>

lemma removeKeys_apply:
  "removeKeys ks m k = (if k \<in> set ks then None else m k)"
  unfolding removeKeys_def by (induction ks arbitrary: m) auto

lemma removeKeys_idem: "removeKeys ks (removeKeys ks m) = removeKeys ks m"
  by (rule ext) (simp add: removeKeys_apply)

lemma removeKeys_update: "k \<in> set ks \<Longrightarrow> removeKeys ks (m(k \<mapsto> v)) = removeKeys ks m"
  by (rule ext) (simp add: removeKeys_apply)

subsection \<open>Session manager\<close>

text \<open>
  C1. The invariant "\<open>isAuthenticated\<close> is never true while no access token is stored" does
  not hold of the code: \<^verbatim>\<open>setCookies\<close> and \<^verbatim>\<open>setAuthTokens\<close> assign \<^verbatim>\<open>true\<close> without looking at
  the other artifact. On a freshly loaded class over an empty store, \<^verbatim>\<open>setCookies\<close> leaves
  \<open>isAuthenticated\<close> true with no token stored, and \<^verbatim>\<open>setAuthTokens\<close> leaves it true with no
  cookies stored.
\<close>

theorem setCookies_authenticates_without_token:
  "isAuthenticated (snd (setCookies ''sid=1'' (Auth_loaded Map.empty {}))) \<and>
   asyncStorage (snd (setCookies ''sid=1'' (Auth_loaded Map.empty {}))) AUTH_TOKEN = None \<and>
   isAuthenticated (snd (setAuthTokens (Some ''a.b.c'') (Some ''r1'') (Auth_loaded Map.empty {}))) \<and>
   asyncStorage (snd (setAuthTokens (Some ''a.b.c'') (Some ''r1'') (Auth_loaded Map.empty {})))
     COOKIES = None"
  by (simp add: setCookies_def setAuthTokens_def setItemValue_def setItem_def Auth_loaded_def
      io_defs)

lemma logout_accepted:
  "set logoutKeys \<inter> failing w = {} \<Longrightarrow>
   logout w = (Inr (), w\<lparr>asyncStorage := removeKeys logoutKeys (asyncStorage w),
                          isAuthenticated := False, instanceType := [], apiPrefix := [],
                          publicApiPrefix := [], cookies := [], baseUrl := []\<rparr>)"
  by (simp add: logout_def multiRemove_def io_defs)

lemma logout_rejected:
  "set logoutKeys \<inter> failing w \<noteq> {} \<Longrightarrow> logout w = (Inl StorageError, w)"
  by (simp add: logout_def multiRemove_def io_defs)

lemma logoutKeys_accepted:
  "set logoutKeys \<inter> failing w = {} \<Longrightarrow>
   AUTH_TOKEN \<notin> failing w \<and> REFRESH_TOKEN \<notin> failing w \<and> ''isAuthenticated'' \<notin> failing w"
  by (auto simp: logoutKeys_def)

text \<open>What \<^verbatim>\<open>setAuthTokens\<close> does on a store that accepts its two keys.\<close>

lemma setAuthTokens_accepted:
  assumes "AUTH_TOKEN \<notin> failing w" and "REFRESH_TOKEN \<notin> failing w"
  shows "setAuthTokens a r w =
     (case (a, r) of
        (Some x, Some y) \<Rightarrow>
          (Inr (), w\<lparr>asyncStorage := (asyncStorage w)(AUTH_TOKEN \<mapsto> x, REFRESH_TOKEN \<mapsto> y),
                     isAuthenticated := True\<rparr>)
      | (Some x, None) \<Rightarrow>
          (Inl InvalidValue, w\<lparr>asyncStorage := (asyncStorage w)(AUTH_TOKEN \<mapsto> x)\<rparr>)
      | (None, Some y) \<Rightarrow>
          (Inl InvalidValue, w\<lparr>asyncStorage := (asyncStorage w)(REFRESH_TOKEN \<mapsto> y)\<rparr>)
      | (None, None) \<Rightarrow> (Inl InvalidValue, w))"
  using assms
  by (simp add: setAuthTokens_def setItemValue_def setItem_def io_defs split: option.split)

lemma logout_after_write:
  assumes "set logoutKeys \<inter> failing w = {}" and "k \<in> set logoutKeys"
  shows "logout (w\<lparr>asyncStorage := (asyncStorage w)(k \<mapsto> v)\<rparr>) = logout w"
  using assms by (simp add: logout_accepted removeKeys_update)

lemma token_keys_logged_out: "AUTH_TOKEN \<in> set logoutKeys" "REFRESH_TOKEN \<in> set logoutKeys"
  by (simp_all add: logoutKeys_def)

text \<open>
  C3, as the code has it. On a store that accepts the operations on the session's keys,
  \<^verbatim>\<open>refreshAuthToken(refreshToken)\<close> is decided by the answer to the POST to
  \<^verbatim>\<open>{apiPrefix}/oauth/token/refresh\<close>. It returns \<^verbatim>\<open>true\<close>, with the new token pair stored and
  \<open>isAuthenticated\<close> set, when the status is 2xx and the body is JSON that carries both
  \<^verbatim>\<open>access_token\<close> and \<^verbatim>\<open>refresh_token\<close>. On any other status, on a network failure, and on a
  2xx answer whose body is not that JSON pair, it returns \<^verbatim>\<open>false\<close> in the state
  \<^verbatim>\<open>logout()\<close> leaves, where \<open>isAuthenticated\<close> is false and \<^verbatim>\<open>checkAuthState()\<close> returns false.
\<close>

theorem refreshAuthToken_outcome:
  assumes "set logoutKeys \<inter> failing w = {}"
  shows "refreshAuthToken env refreshToken w =
           (case fetchRefresh env (apiPrefix w @ ''/oauth/token/refresh'') refreshToken of
              NetworkFailure \<Rightarrow> (Inr False, snd (logout w))
            | Response status answer \<Rightarrow>
                if ok status
                then (case answer of
                        Json data \<Rightarrow>
                          (case (access_token data, refresh_token data) of
                             (Some a, Some r) \<Rightarrow>
                               (Inr True,
                                w\<lparr>asyncStorage := (asyncStorage w)(AUTH_TOKEN \<mapsto> a,
                                                                    REFRESH_TOKEN \<mapsto> r),
                                  isAuthenticated := True\<rparr>)
                           | _ \<Rightarrow> (Inr False, snd (logout w)))
                      | _ \<Rightarrow> (Inr False, snd (logout w)))
                else (Inr False, snd (logout w))) \<and>
         \<not> isAuthenticated (snd (logout w)) \<and>
         fst (checkAuthState (snd (logout w))) = Inr False"
proof -
  have keys: "AUTH_TOKEN \<notin> failing w" "REFRESH_TOKEN \<notin> failing w"
    "''isAuthenticated'' \<notin> failing w"
    using assms logoutKeys_accepted by blast+
  have out: "\<not> isAuthenticated (snd (logout w))"
    "fst (checkAuthState (snd (logout w))) = Inr False"
    using keys
    by (simp_all add: logout_accepted [OF assms] checkAuthState_def getItem_def io_defs
        removeKeys_apply logoutKeys_def)
  have "refreshAuthToken env refreshToken w =
           (case fetchRefresh env (apiPrefix w @ ''/oauth/token/refresh'') refreshToken of
              NetworkFailure \<Rightarrow> (Inr False, snd (logout w))
            | Response status answer \<Rightarrow>
                if ok status
                then (case answer of
                        Json data \<Rightarrow>
                          (case (access_token data, refresh_token data) of
                             (Some a, Some r) \<Rightarrow>
                               (Inr True,
                                w\<lparr>asyncStorage := (asyncStorage w)(AUTH_TOKEN \<mapsto> a,
                                                                    REFRESH_TOKEN \<mapsto> r),
                                  isAuthenticated := True\<rparr>)
                           | _ \<Rightarrow> (Inr False, snd (logout w)))
                      | _ \<Rightarrow> (Inr False, snd (logout w)))
                else (Inr False, snd (logout w)))"
    by (simp add: refreshAuthToken_def setAuthTokens_accepted [OF keys(1,2)] io_defs
        logout_after_write [OF assms] token_keys_logged_out logout_accepted [OF assms]
        split: response.split body.split option.split)
  with out show ?thesis by simp
qed

theorem refreshAuthToken_outcome_witness:
  "set logoutKeys \<inter> failing ((Auth_loaded Map.empty {})\<lparr>apiPrefix := ''https://x/api''\<rparr>) = {} \<and>
   refreshAuthToken samplePlatform ''r1'' ((Auth_loaded Map.empty {})\<lparr>apiPrefix := ''https://x/api''\<rparr>) =
     (Inr True,
      (Auth_loaded [AUTH_TOKEN \<mapsto> ''h.fresh.s'', REFRESH_TOKEN \<mapsto> ''r2''] {})
        \<lparr>apiPrefix := ''https://x/api'', isAuthenticated := True\<rparr>) \<and>
   fst (refreshAuthToken samplePlatform ''revoked''
          ((Auth_loaded Map.empty {})\<lparr>apiPrefix := ''https://x/api''\<rparr>)) = Inr False \<and>
   \<not> isAuthenticated (snd (refreshAuthToken samplePlatform ''revoked''
          ((Auth_loaded Map.empty {})\<lparr>apiPrefix := ''https://x/api''\<rparr>)))"
  using refreshAuthToken_outcome
          [of "(Auth_loaded Map.empty {})\<lparr>apiPrefix := ''https://x/api''\<rparr>" samplePlatform "''r1''"]
        refreshAuthToken_outcome
          [of "(Auth_loaded Map.empty {})\<lparr>apiPrefix := ''https://x/api''\<rparr>" samplePlatform "''revoked''"]
  by (simp add: samplePlatform_def Auth_loaded_def ok_def)

text \<open>
  C3, as the specification words it, fails on a 2xx answer without the JSON pair: the
  refresh endpoint answers 204 with no body, \<^verbatim>\<open>await response.json()\<close> throws inside the
  \<^verbatim>\<open>try\<close>, and \<^verbatim>\<open>refreshAuthToken\<close> logs out and returns false.
\<close>

theorem refreshAuthToken_empty_answer_counterexample:
  "fetchRefresh samplePlatform
     (apiPrefix ((Auth_loaded Map.empty {})\<lparr>apiPrefix := ''https://x/api''\<rparr>) @
        ''/oauth/token/refresh'') ''r204'' = Response 204 NotJson \<and>
   ok 204 \<and>
   fst (refreshAuthToken samplePlatform ''r204''
          ((Auth_loaded Map.empty {})\<lparr>apiPrefix := ''https://x/api''\<rparr>)) = Inr False \<and>
   asyncStorage (snd (refreshAuthToken samplePlatform ''r204''
          ((Auth_loaded Map.empty {})\<lparr>apiPrefix := ''https://x/api''\<rparr>))) AUTH_TOKEN = None"
  by (simp add: refreshAuthToken_def logout_def multiRemove_def logoutKeys_def removeKeys_def
      samplePlatform_def Auth_loaded_def ok_def io_defs)

lemma getItem_accepted: "k \<notin> failing w \<Longrightarrow> getItem k w = (Inr (asyncStorage w k), w)"
  by (simp add: getItem_def)

lemma STORAGE_KEYS_accepted:
  assumes "set STORAGE_KEYS \<inter> failing w = {}"
  shows "AUTH_TOKEN \<notin> failing w" "REFRESH_TOKEN \<notin> failing w" "INSTANCE_URL \<notin> failing w"
    "INSTANCE_TYPE \<notin> failing w" "API_PREFIX \<notin> failing w" "PUBLIC_API_PREFIX \<notin> failing w"
    "COOKIES \<notin> failing w" "BASE_URL \<notin> failing w"
  using assms by (auto simp: STORAGE_KEYS_def)

lemma initialize_never_throws: "\<exists>b w'. initialize env w = (Inr b, w')"
  by (auto simp: initialize_def tryCatch_def ret_def split: prod.split sum.split)

lemma initialize_unreadable:
  "set STORAGE_KEYS \<inter> failing w \<noteq> {} \<Longrightarrow> initialize env w = (Inr False, w)"
  by (auto simp: initialize_def STORAGE_KEYS_def getItem_def tryCatch_def andThen_def ret_def)

lemma initialize_readable:
  assumes "set STORAGE_KEYS \<inter> failing w = {}"
  shows "initialize env w =
     (case checkExpiry env (asyncStorage w AUTH_TOKEN) (asyncStorage w REFRESH_TOKEN)
             (assignFields (asyncStorage w AUTH_TOKEN) (asyncStorage w INSTANCE_URL)
                (asyncStorage w INSTANCE_TYPE) (asyncStorage w API_PREFIX)
                (asyncStorage w PUBLIC_API_PREFIX) (asyncStorage w COOKIES)
                (asyncStorage w BASE_URL) w) of
        (Inl e, w') \<Rightarrow> (Inr False, w')
      | (Inr u, w') \<Rightarrow> (Inr (isAuthenticated w'), w'))"
  by (simp add: initialize_def getItem_accepted STORAGE_KEYS_accepted [OF assms] io_defs
      split: prod.split sum.split)

text \<open>
  What the expiry check leaves in \<open>isAuthenticated\<close> for a non-empty token, counting a
  check that throws as false (the outer \<^verbatim>\<open>catch\<close> of \<^verbatim>\<open>initialize\<close> returns false).
\<close>

lemma checkExpiry_outcome:
  assumes "AUTH_TOKEN \<notin> failing v" and "REFRESH_TOKEN \<notin> failing v" and "t \<noteq> []"
  shows "(case checkExpiry env (Some t) rt v of
            (Inl e, w') \<Rightarrow> False
          | (Inr u, w') \<Rightarrow> isAuthenticated w') =
         (case decodePayload env t of
            Malformed \<Rightarrow> False
          | Payload None \<Rightarrow> isAuthenticated v
          | Payload (Some exp) \<Rightarrow>
              if dateNow env < exp * 1000 then isAuthenticated v
              else (case rt of
                      None \<Rightarrow> False
                    | Some r \<Rightarrow>
                        r \<noteq> [] \<and>
                        (case fetchRefresh env (apiPrefix v @ ''/oauth/token/refresh'') r of
                           Response status (Json data) \<Rightarrow>
                             ok status \<and> access_token data \<noteq> None \<and> refresh_token data \<noteq> None
                         | _ \<Rightarrow> False)))"
proof (cases "set logoutKeys \<inter> failing v = {}")
  case True
  show ?thesis
    using assms
    by (simp add: checkExpiry_def refreshAuthToken_def setAuthTokens_accepted
        logout_after_write [OF True] token_keys_logged_out
        logout_accepted [OF True] io_defs not_less
        split: jwt_payload.split option.split response.split body.split)
next
  case False
  show ?thesis
    using assms False
    by (simp add: checkExpiry_def refreshAuthToken_def setAuthTokens_accepted
        logout_rejected io_defs not_less
        split: jwt_payload.split option.split response.split body.split)
qed

text \<open>
  C2, as the code has it. \<^verbatim>\<open>initialize()\<close> never throws. It returns false when the store
  cannot be read, when no non-empty access token is stored (so on the empty store), and
  when the stored token cannot be decoded. On a readable store with a decodable token:
  a token that has not expired, or carries no numeric \<^verbatim>\<open>exp\<close>, gives true exactly when
  cookies are stored; an expired token gives false unless the stored refresh token is
  exchanged, that is, answered 2xx with a JSON body that carries both tokens, and true
  when it is exchanged and cookies are stored. (What a successful exchange gives when
  no cookies are stored is left open here.)
\<close>

theorem initialize_result:
  "(\<exists>b w'. initialize env w = (Inr b, w')) \<and>
   (set STORAGE_KEYS \<inter> failing w \<noteq> {} \<longrightarrow> fst (initialize env w) = Inr False) \<and>
   (\<not> truthy (asyncStorage w AUTH_TOKEN) \<longrightarrow> fst (initialize env w) = Inr False) \<and>
   (asyncStorage w = Map.empty \<longrightarrow> fst (initialize env w) = Inr False) \<and>
   (set STORAGE_KEYS \<inter> failing w = {} \<and> asyncStorage w AUTH_TOKEN = Some t \<and> t \<noteq> [] \<longrightarrow>
      (case decodePayload env t of
         Malformed \<Rightarrow> fst (initialize env w) = Inr False
       | Payload None \<Rightarrow> fst (initialize env w) = Inr (truthy (asyncStorage w COOKIES))
       | Payload (Some exp) \<Rightarrow>
           if dateNow env < exp * 1000
           then fst (initialize env w) = Inr (truthy (asyncStorage w COOKIES))
           else if truthy (asyncStorage w REFRESH_TOKEN) \<and>
                   (case fetchRefresh env
                           (orElse (asyncStorage w API_PREFIX) [] @ ''/oauth/token/refresh'')
                           (orElse (asyncStorage w REFRESH_TOKEN) []) of
                      Response status (Json data) \<Rightarrow>
                        ok status \<and> access_token data \<noteq> None \<and> refresh_token data \<noteq> None
                    | _ \<Rightarrow> False)
                then truthy (asyncStorage w COOKIES) \<longrightarrow> fst (initialize env w) = Inr True
                else fst (initialize env w) = Inr False))"
proof (intro conjI impI)
  show "\<exists>b w'. initialize env w = (Inr b, w')"
    by (rule initialize_never_throws)
next
  assume "set STORAGE_KEYS \<inter> failing w \<noteq> {}"
  then show "fst (initialize env w) = Inr False"
    by (simp add: initialize_unreadable)
next
  assume absent: "\<not> truthy (asyncStorage w AUTH_TOKEN)"
  show "fst (initialize env w) = Inr False"
  proof (cases "set STORAGE_KEYS \<inter> failing w = {}")
    case True
    with absent show ?thesis
      by (auto simp: initialize_readable checkExpiry_def assignFields_def truthy_def ret_def
          split: option.splits)
  next
    case False
    then show ?thesis by (simp add: initialize_unreadable)
  qed
next
  assume empty: "asyncStorage w = Map.empty"
  show "fst (initialize env w) = Inr False"
  proof (cases "set STORAGE_KEYS \<inter> failing w = {}")
    case True
    with empty show ?thesis
      by (simp add: initialize_readable checkExpiry_def assignFields_def truthy_def ret_def)
  next
    case False
    then show ?thesis by (simp add: initialize_unreadable)
  qed
next
  assume h: "set STORAGE_KEYS \<inter> failing w = {} \<and> asyncStorage w AUTH_TOKEN = Some t \<and> t \<noteq> []"
  let ?v = "assignFields (asyncStorage w AUTH_TOKEN) (asyncStorage w INSTANCE_URL)
              (asyncStorage w INSTANCE_TYPE) (asyncStorage w API_PREFIX)
              (asyncStorage w PUBLIC_API_PREFIX) (asyncStorage w COOKIES)
              (asyncStorage w BASE_URL) w"
  from h have readable: "set STORAGE_KEYS \<inter> failing w = {}"
    and tok: "asyncStorage w AUTH_TOKEN = Some t" and ne: "t \<noteq> []" by simp_all
  have v: "AUTH_TOKEN \<notin> failing ?v" "REFRESH_TOKEN \<notin> failing ?v"
    using STORAGE_KEYS_accepted [OF readable] by (simp_all add: assignFields_def)
  have fields: "isAuthenticated ?v = truthy (asyncStorage w COOKIES)"
    "apiPrefix ?v = orElse (asyncStorage w API_PREFIX) []"
    using tok ne by (simp_all add: assignFields_def truthy_def)
  have res: "fst (initialize env w) =
      Inr (case checkExpiry env (Some t) (asyncStorage w REFRESH_TOKEN) ?v of
             (Inl e, w') \<Rightarrow> False
           | (Inr u, w') \<Rightarrow> isAuthenticated w')"
    by (simp add: initialize_readable [OF readable] tok split: prod.split sum.split)
  show "case decodePayload env t of
         Malformed \<Rightarrow> fst (initialize env w) = Inr False
       | Payload None \<Rightarrow> fst (initialize env w) = Inr (truthy (asyncStorage w COOKIES))
       | Payload (Some exp) \<Rightarrow>
           if dateNow env < exp * 1000
           then fst (initialize env w) = Inr (truthy (asyncStorage w COOKIES))
           else if truthy (asyncStorage w REFRESH_TOKEN) \<and>
                   (case fetchRefresh env
                           (orElse (asyncStorage w API_PREFIX) [] @ ''/oauth/token/refresh'')
                           (orElse (asyncStorage w REFRESH_TOKEN) []) of
                      Response status (Json data) \<Rightarrow>
                        ok status \<and> access_token data \<noteq> None \<and> refresh_token data \<noteq> None
                    | _ \<Rightarrow> False)
                then truthy (asyncStorage w COOKIES) \<longrightarrow> fst (initialize env w) = Inr True
                else fst (initialize env w) = Inr False"
    unfolding res checkExpiry_outcome [OF v ne] fields
    by (auto simp: truthy_def orElse_def
        split: jwt_payload.split option.split response.split body.split)
qed

theorem initialize_result_witness:
  "fst (initialize samplePlatform
          (Auth_loaded [AUTH_TOKEN \<mapsto> ''h.fresh.s'', COOKIES \<mapsto> ''sid=1''] {})) = Inr True \<and>
   fst (initialize samplePlatform
          (Auth_loaded [AUTH_TOKEN \<mapsto> ''h.stale.s'', REFRESH_TOKEN \<mapsto> ''r1'',
                        API_PREFIX \<mapsto> ''https://x/api'', COOKIES \<mapsto> ''sid=1''] {})) = Inr True \<and>
   fst (initialize samplePlatform
          (Auth_loaded [AUTH_TOKEN \<mapsto> ''h.stale.s'', REFRESH_TOKEN \<mapsto> ''revoked'',
                        API_PREFIX \<mapsto> ''https://x/api'', COOKIES \<mapsto> ''sid=1''] {})) = Inr False \<and>
   fst (initialize samplePlatform
          (Auth_loaded [AUTH_TOKEN \<mapsto> ''h.stale.s'', REFRESH_TOKEN \<mapsto> ''r204'',
                        API_PREFIX \<mapsto> ''https://x/api'', COOKIES \<mapsto> ''sid=1''] {})) = Inr False \<and>
   fst (initialize samplePlatform
          (Auth_loaded [AUTH_TOKEN \<mapsto> ''h.noexp.s'', COOKIES \<mapsto> ''sid=1''] {})) = Inr True \<and>
   fst (initialize samplePlatform (Auth_loaded [AUTH_TOKEN \<mapsto> ''h.fresh.s''] {})) = Inr False \<and>
   fst (initialize samplePlatform (Auth_loaded [COOKIES \<mapsto> ''sid=1''] {})) = Inr False \<and>
   fst (initialize samplePlatform (Auth_loaded Map.empty {})) = Inr False \<and>
   fst (initialize samplePlatform
          (Auth_loaded [AUTH_TOKEN \<mapsto> ''h.fresh.s'', COOKIES \<mapsto> ''sid=1''] {COOKIES})) = Inr False"
  using initialize_result
          [of samplePlatform
              "Auth_loaded [AUTH_TOKEN \<mapsto> ''h.fresh.s'', COOKIES \<mapsto> ''sid=1''] {}" "''h.fresh.s''"]
        initialize_result
          [of samplePlatform
              "Auth_loaded [AUTH_TOKEN \<mapsto> ''h.stale.s'', REFRESH_TOKEN \<mapsto> ''r1'',
                            API_PREFIX \<mapsto> ''https://x/api'', COOKIES \<mapsto> ''sid=1''] {}"
              "''h.stale.s''"]
        initialize_result
          [of samplePlatform
              "Auth_loaded [AUTH_TOKEN \<mapsto> ''h.stale.s'', REFRESH_TOKEN \<mapsto> ''revoked'',
                            API_PREFIX \<mapsto> ''https://x/api'', COOKIES \<mapsto> ''sid=1''] {}"
              "''h.stale.s''"]
        initialize_result
          [of samplePlatform
              "Auth_loaded [AUTH_TOKEN \<mapsto> ''h.stale.s'', REFRESH_TOKEN \<mapsto> ''r204'',
                            API_PREFIX \<mapsto> ''https://x/api'', COOKIES \<mapsto> ''sid=1''] {}"
              "''h.stale.s''"]
        initialize_result
          [of samplePlatform
              "Auth_loaded [AUTH_TOKEN \<mapsto> ''h.noexp.s'', COOKIES \<mapsto> ''sid=1''] {}" "''h.noexp.s''"]
        initialize_result
          [of samplePlatform "Auth_loaded [AUTH_TOKEN \<mapsto> ''h.fresh.s''] {}" "''h.fresh.s''"]
        initialize_result
          [of samplePlatform "Auth_loaded [COOKIES \<mapsto> ''sid=1''] {}" "''h.fresh.s''"]
        initialize_result [of samplePlatform "Auth_loaded Map.empty {}" "''h.fresh.s''"]
        initialize_result
          [of samplePlatform
              "Auth_loaded [AUTH_TOKEN \<mapsto> ''h.fresh.s'', COOKIES \<mapsto> ''sid=1''] {COOKIES}"
              "''h.fresh.s''"]
  by (simp add: Auth_loaded_def samplePlatform_def STORAGE_KEYS_def truthy_def orElse_def ok_def)

text \<open>
  C2, as the specification words it, fails on a token that cannot be decoded: an access token and
  cookies are both stored, the condition on a decodable token does not apply, and
  \<^verbatim>\<open>initialize()\<close> logs out and returns false.
\<close>

theorem initialize_undecodable_token_counterexample:
  "asyncStorage (Auth_loaded [AUTH_TOKEN \<mapsto> ''opaque-token'', COOKIES \<mapsto> ''sid=1''] {})
     AUTH_TOKEN = Some ''opaque-token'' \<and>
   asyncStorage (Auth_loaded [AUTH_TOKEN \<mapsto> ''opaque-token'', COOKIES \<mapsto> ''sid=1''] {})
     COOKIES = Some ''sid=1'' \<and>
   decodePayload samplePlatform ''opaque-token'' = Malformed \<and>
   fst (initialize samplePlatform
          (Auth_loaded [AUTH_TOKEN \<mapsto> ''opaque-token'', COOKIES \<mapsto> ''sid=1''] {})) = Inr False"
  by (simp add: initialize_def checkExpiry_def assignFields_def logout_def multiRemove_def
      logoutKeys_def getItem_def Auth_loaded_def samplePlatform_def truthy_def orElse_def io_defs)

text \<open>
  The other way round: an expired token that is refreshed makes \<^verbatim>\<open>initialize()\<close> return
  true with no cookies stored, because \<^verbatim>\<open>setAuthTokens\<close> sets the flag on its own (see C1).
\<close>

lemma initialize_refreshed_without_cookies:
  "asyncStorage (Auth_loaded [AUTH_TOKEN \<mapsto> ''h.stale.s'', REFRESH_TOKEN \<mapsto> ''r1'',
                              API_PREFIX \<mapsto> ''https://x/api''] {}) COOKIES = None \<and>
   fst (initialize samplePlatform
          (Auth_loaded [AUTH_TOKEN \<mapsto> ''h.stale.s'', REFRESH_TOKEN \<mapsto> ''r1'',
                        API_PREFIX \<mapsto> ''https://x/api''] {})) = Inr True"
  by (simp add: initialize_def checkExpiry_def assignFields_def refreshAuthToken_def
      setAuthTokens_def setItemValue_def setItem_def getItem_def Auth_loaded_def
      samplePlatform_def truthy_def orElse_def ok_def io_defs)

text \<open>
  C5. \<^verbatim>\<open>getSignInUrl()\<close> reads nothing of the instance configuration: a session configured
  for the self-hosted instance \<^verbatim>\<open>https://dify.example.com\<close> and a session configured for
  the cloud both get the cloud's sign-in URL.
\<close>

theorem getSignInUrl_ignores_instance:
  "getSignInUrl ((Auth_loaded Map.empty {})\<lparr>instanceType := CUSTOM,
       instanceUrl := ''https://dify.example.com''\<rparr>) = ''https://cloud.dify.ai/signin'' \<and>
   getSignInUrl ((Auth_loaded Map.empty {})\<lparr>instanceType := CLOUD\<rparr>) =
     ''https://cloud.dify.ai/signin''"
  by (simp add: getSignInUrl_def)

text \<open>
  C8. \<^verbatim>\<open>setApiPrefix(p)\<close> with the second argument omitted, on a store that accepts the two
  writes, returns normally, persists \<open>p\<close> under \<^verbatim>\<open>public_api_prefix\<close>, and a following
  \<^verbatim>\<open>getPublicApiPrefix()\<close> returns \<open>p\<close>, for every string \<open>p\<close>.
\<close>

theorem setApiPrefix_public_default:
  assumes "API_PREFIX \<notin> failing w" and "PUBLIC_API_PREFIX \<notin> failing w"
  shows "\<exists>w'. setApiPrefix p None w = (Inr (), w') \<and>
              asyncStorage w' PUBLIC_API_PREFIX = Some p \<and>
              publicApiPrefix w' = p \<and>
              getPublicApiPrefix w' = (Inr p, w')"
  using assms
  by (simp add: setApiPrefix_def getPublicApiPrefix_def setItem_def orElse_def io_defs)

theorem setApiPrefix_public_default_witness:
  "API_PREFIX \<notin> failing (Auth_loaded Map.empty {}) \<and>
   PUBLIC_API_PREFIX \<notin> failing (Auth_loaded Map.empty {}) \<and>
   (\<exists>w'. setApiPrefix ''https://x/api'' None (Auth_loaded Map.empty {}) = (Inr (), w') \<and>
         asyncStorage w' PUBLIC_API_PREFIX = Some ''https://x/api'' \<and>
         publicApiPrefix w' = ''https://x/api'' \<and>
         getPublicApiPrefix w' = (Inr ''https://x/api'', w'))"
  using setApiPrefix_public_default [of "Auth_loaded Map.empty {}" "''https://x/api''"]
  by (simp add: Auth_loaded_def)

text \<open>
  C9. \<^verbatim>\<open>logout()\<close> is idempotent. A second call in a row ends exactly as the first one did:
  same outcome, same static fields, same store. The outcome is an error only when the
  store rejects the removal; having nothing to remove is not an error, so on a store
  that accepts the removal both calls return normally, also from the logged-out state.
\<close>

theorem logout_idempotent:
  "logout (snd (logout w)) = logout w \<and>
   fst (logout w) = (if set logoutKeys \<inter> failing w = {} then Inr () else Inl StorageError)"
  by (simp add: logout_def tryCatch_def andThen_def multiRemove_def modify_def throw_def
      removeKeys_idem)

text \<open>
  C10. \<^verbatim>\<open>checkAuthState()\<close> is decided by the persisted \<^verbatim>\<open>'isAuthenticated'\<close> key alone: when
  the key can be read, the result is whether its value is \<^verbatim>\<open>'true'\<close>, and the static field
  when the key is absent. Whether an access token or cookies are stored makes no
  difference to the result. After a tick of the navigator's interval the surface shown
  is the one this result selects.
\<close>

theorem checkAuthState_reads_flag_only:
  "fst (checkAuthState w) =
     (if ''isAuthenticated'' \<in> failing w then Inl StorageError
      else Inr (case asyncStorage w ''isAuthenticated'' of
                  None \<Rightarrow> isAuthenticated w
                | Some v \<Rightarrow> v = ''true'')) \<and>
   fst (checkAuthState (w\<lparr>asyncStorage := (asyncStorage w)(AUTH_TOKEN := t, COOKIES := c)\<rparr>)) =
     fst (checkAuthState w) \<and>
   rendered (fst (pollTick (n, w))) =
     (if nav_isLoading n then Blank
      else (case fst (checkAuthState w) of
              Inr isAuth \<Rightarrow> if isAuth then AuthenticatedStack else LoginStack
            | Inl e \<Rightarrow> rendered n))"
  by (simp add: checkAuthState_def pollTick_def rendered_def getItem_def io_defs
      split: option.split)

subsection \<open>Login screen\<close>

text \<open>
  C4. The custom login computes the normalized domain and hands it to
  \<^verbatim>\<open>Auth.setInstanceType\<close> as a second argument, which that method does not take: for the
  domain \<^verbatim>\<open>dify.example.com\<close> nothing is stored under \<^verbatim>\<open>instance_url\<close> or \<^verbatim>\<open>base_url\<close>, the
  fields \<open>instanceUrl\<close> and \<open>baseUrl\<close> keep their defaults, and the browser is sent to the
  cloud's sign-in page. (The cloud login, for its part, opens the cloud's sign-in page
  also when a custom instance URL is stored and loaded.)
\<close>

theorem handleCustomLogin_drops_domain:
  "normalizeDomain ''dify.example.com'' = ''https://dify.example.com'' \<and>
   (case handleCustomLogin ((LoginScreen_mounted (Auth_loaded Map.empty {}))
            \<lparr>customDomain := ''dify.example.com''\<rparr>) of
      (r, s') \<Rightarrow>
        r = Inr () \<and>
        asyncStorage (session s') INSTANCE_TYPE = Some CUSTOM \<and>
        asyncStorage (session s') INSTANCE_URL = None \<and>
        asyncStorage (session s') BASE_URL = None \<and>
        instanceUrl (session s') = CLOUD_INSTANCE_URL \<and>
        baseUrl (session s') = [] \<and>
        webViewUrl s' = ''https://cloud.dify.ai/signin'') \<and>
   webViewUrl (snd (handleCloudLogin (LoginScreen_mounted
       ((Auth_loaded [INSTANCE_URL \<mapsto> ''https://dify.example.com''] {})
          \<lparr>instanceUrl := ''https://dify.example.com''\<rparr>)))) = ''https://cloud.dify.ai/signin''"
  by (simp add: handleCustomLogin_def handleCloudLogin_def normalizeDomain_def surplus_def
      setInstanceType_def setItem_def getSignInUrl_def onAuth_def LoginScreen_mounted_def
      Auth_loaded_def io_defs)

text \<open>
  C6. A message of type \<^verbatim>\<open>API_PREFIX\<close> changes nothing: the handler calls
  \<^verbatim>\<open>Auth.setApiPrefixes\<close>, which class \<^verbatim>\<open>Auth\<close> does not declare (its method is
  \<^verbatim>\<open>setApiPrefix\<close>), and swallows the TypeError. The prefixes of the message reach neither
  the static fields nor the store.
\<close>

theorem handleWebViewMessage_ApiPrefix_no_effect:
  "handleWebViewMessage (ApiPrefixMessage prefix publicPrefix) s = (Inr (), s)"
  by (simp add: handleWebViewMessage_def callStatic_def Auth_methods_def onAuth_def io_defs)

lemma quietD:
  "quiet m \<Longrightarrow> m s = (r, s') \<Longrightarrow> requests s' = requests s \<and> loginProcessed s' = loginProcessed s"
  unfolding quiet_def by (metis snd_conv)

lemma quietI:
  assumes "\<And>s r s'. m s = (r, s') \<Longrightarrow>
             requests s' = requests s \<and> loginProcessed s' = loginProcessed s"
  shows "quiet m"
  unfolding quiet_def using assms by (metis prod.collapse)

lemma oneRequestD:
  "oneRequest m \<Longrightarrow> m s = (r, s') \<Longrightarrow>
   length (requests s') \<le> Suc (length (requests s)) \<and> loginProcessed s' = loginProcessed s"
  unfolding oneRequest_def by (metis snd_conv)

lemma oneRequestI:
  assumes "\<And>s r s'. m s = (r, s') \<Longrightarrow>
             length (requests s') \<le> Suc (length (requests s)) \<and>
             loginProcessed s' = loginProcessed s"
  shows "oneRequest m"
  unfolding oneRequest_def using assms by (metis prod.collapse)

lemma quiet_ret: "quiet (ret a)"
  by (simp add: quiet_def ret_def)

lemma quiet_throw: "quiet (throw e)"
  by (simp add: quiet_def throw_def)

lemma quiet_onAuth: "quiet (onAuth m)"
  by (simp add: quiet_def onAuth_def split: prod.split)

lemma quiet_alert: "quiet (alert title msg)"
  by (simp add: quiet_def alert_def modify_def)

lemma quiet_if: "quiet m \<Longrightarrow> quiet n \<Longrightarrow> quiet (if b then m else n)"
  by simp

lemma quiet_andThen:
  assumes "quiet m" and "\<And>a. quiet (k a)"
  shows "quiet (andThen m k)"
proof (rule quietI)
  fix s r s'
  assume run: "andThen m k s = (r, s')"
  obtain r1 s1 where m: "m s = (r1, s1)" by (cases "m s")
  note q1 = quietD [OF assms(1) m]
  show "requests s' = requests s \<and> loginProcessed s' = loginProcessed s"
  proof (cases r1)
    case (Inl e)
    with run m q1 show ?thesis by (simp add: andThen_def)
  next
    case (Inr a)
    with run m have "k a s1 = (r, s')" by (simp add: andThen_def)
    from quietD [OF assms(2) this] q1 show ?thesis by simp
  qed
qed

lemma quiet_tryCatch:
  assumes "quiet m" and "\<And>e. quiet (h e)"
  shows "quiet (tryCatch m h)"
proof (rule quietI)
  fix s r s'
  assume run: "tryCatch m h s = (r, s')"
  obtain r1 s1 where m: "m s = (r1, s1)" by (cases "m s")
  note q1 = quietD [OF assms(1) m]
  show "requests s' = requests s \<and> loginProcessed s' = loginProcessed s"
  proof (cases r1)
    case (Inr a)
    with run m q1 show ?thesis by (simp add: tryCatch_def)
  next
    case (Inl e)
    with run m have "h e s1 = (r, s')" by (simp add: tryCatch_def)
    from quietD [OF assms(2) this] q1 show ?thesis by simp
  qed
qed

lemma quiet_saveSession: "quiet (saveSession urlObj accessToken refreshToken)"
  unfolding saveSession_def
  by (intro quiet_if quiet_andThen quiet_onAuth quiet_ret)

lemma quiet_finishLogin: "quiet (finishLogin apps)"
  unfolding finishLogin_def
  by (intro quiet_andThen quiet_onAuth) (simp_all add: quiet_def modify_def)

lemma oneRequest_quiet: "quiet m \<Longrightarrow> oneRequest m"
  by (simp add: quiet_def oneRequest_def)

lemma oneRequest_fetchAppList: "oneRequest (fetchAppList env prefix accessToken)"
  by (simp add: oneRequest_def fetchAppList_def Let_def throw_def ret_def
      split: response.split body.split)

lemma oneRequest_then_quiet:
  assumes "oneRequest m" and "\<And>a. quiet (k a)"
  shows "oneRequest (andThen m k)"
proof (rule oneRequestI)
  fix s r s'
  assume run: "andThen m k s = (r, s')"
  obtain r1 s1 where m: "m s = (r1, s1)" by (cases "m s")
  note q1 = oneRequestD [OF assms(1) m]
  show "length (requests s') \<le> Suc (length (requests s)) \<and> loginProcessed s' = loginProcessed s"
  proof (cases r1)
    case (Inl e)
    with run m q1 show ?thesis by (simp add: andThen_def)
  next
    case (Inr a)
    with run m have "k a s1 = (r, s')" by (simp add: andThen_def)
    from quietD [OF assms(2) this] q1 show ?thesis by simp
  qed
qed

lemma quiet_then_oneRequest:
  assumes "quiet m" and "\<And>a. oneRequest (k a)"
  shows "oneRequest (andThen m k)"
proof (rule oneRequestI)
  fix s r s'
  assume run: "andThen m k s = (r, s')"
  obtain r1 s1 where m: "m s = (r1, s1)" by (cases "m s")
  note q1 = quietD [OF assms(1) m]
  show "length (requests s') \<le> Suc (length (requests s)) \<and> loginProcessed s' = loginProcessed s"
  proof (cases r1)
    case (Inl e)
    with run m q1 show ?thesis by (simp add: andThen_def)
  next
    case (Inr a)
    with run m have "k a s1 = (r, s')" by (simp add: andThen_def)
    from oneRequestD [OF assms(2) this] q1 show ?thesis by simp
  qed
qed

lemma oneRequest_tryCatch:
  assumes "oneRequest m" and "\<And>e. quiet (h e)"
  shows "oneRequest (tryCatch m h)"
proof (rule oneRequestI)
  fix s r s'
  assume run: "tryCatch m h s = (r, s')"
  obtain r1 s1 where m: "m s = (r1, s1)" by (cases "m s")
  note q1 = oneRequestD [OF assms(1) m]
  show "length (requests s') \<le> Suc (length (requests s)) \<and> loginProcessed s' = loginProcessed s"
  proof (cases r1)
    case (Inr a)
    with run m q1 show ?thesis by (simp add: tryCatch_def)
  next
    case (Inl e)
    with run m have "h e s1 = (r, s')" by (simp add: tryCatch_def)
    from quietD [OF assms(2) this] q1 show ?thesis by simp
  qed
qed

lemma quiet_parse:
  "quiet (\<lambda>s. case newURL env u of None \<Rightarrow> throw TypeError s | Some urlObj \<Rightarrow> ret urlObj s)"
  by (simp add: quiet_def throw_def ret_def split: option.split)

lemma oneRequest_completeLogin: "oneRequest (completeLogin env u)"
  unfolding completeLogin_def Let_def
  by (intro quiet_then_oneRequest oneRequest_then_quiet oneRequest_fetchAppList
      quiet_saveSession quiet_onAuth quiet_finishLogin quiet_parse)

lemma handleWebViewNavigation_cases:
  "handleWebViewNavigation env u s =
     (if u \<noteq> [] \<and> \<not> loginProcessed s \<and>
         (case newURL env u of
            None \<Rightarrow> includes_js u ''/apps''
          | Some parsedUrl \<Rightarrow> pathname parsedUrl = ''/apps'')
      then tryCatch (completeLogin env u)
             (\<lambda>e. alert ''Error'' ''Failed to complete login process'')
             (s\<lparr>loginProcessed := True\<rparr>)
      else (Inr (), s))"
proof -
  have caught: "tryCatch (tryCatch m (\<lambda>e. alert a b)) (\<lambda>e. ret ()) t = tryCatch m (\<lambda>e. alert a b) t"
    for m :: "(loginScreen, unit) io" and a b t
    by (simp add: tryCatch_def alert_def modify_def ret_def split: prod.split sum.split)
  have "handleWebViewNavigation env u s =
          tryCatch (\<lambda>s. if u \<noteq> [] \<and> \<not> loginProcessed s \<and>
                           (case newURL env u of
                              None \<Rightarrow> includes_js u ''/apps''
                            | Some parsedUrl \<Rightarrow> pathname parsedUrl = ''/apps'')
                         then tryCatch (completeLogin env u)
                                (\<lambda>e. alert ''Error'' ''Failed to complete login process'')
                                (s\<lparr>loginProcessed := True\<rparr>)
                         else ret () s) (\<lambda>e. ret ()) s"
    unfolding handleWebViewNavigation_def
    by (simp add: tryCatch_def split: option.split)
  also have "\<dots> =
     (if u \<noteq> [] \<and> \<not> loginProcessed s \<and>
         (case newURL env u of
            None \<Rightarrow> includes_js u ''/apps''
          | Some parsedUrl \<Rightarrow> pathname parsedUrl = ''/apps'')
      then tryCatch (tryCatch (completeLogin env u)
             (\<lambda>e. alert ''Error'' ''Failed to complete login process'')) (\<lambda>e. ret ())
             (s\<lparr>loginProcessed := True\<rparr>)
      else (Inr (), s))"
    by (simp add: tryCatch_def ret_def)
  finally show ?thesis by (simp only: caught)
qed

lemma handleWebViewNavigation_guarded:
  "loginProcessed s \<Longrightarrow> handleWebViewNavigation env u s = (Inr (), s)"
  by (simp add: handleWebViewNavigation_cases)

lemma navigations_guarded: "loginProcessed s \<Longrightarrow> navigations env us s = s"
  unfolding navigations_def
  by (induction us) (simp_all add: handleWebViewNavigation_guarded)

lemma oneRequest_landing:
  "oneRequest (tryCatch (completeLogin env u)
     (\<lambda>e. alert ''Error'' ''Failed to complete login process''))"
  by (intro oneRequest_tryCatch oneRequest_completeLogin quiet_alert)

lemma handleWebViewNavigation_step:
  "snd (handleWebViewNavigation env u s) = s \<or>
   (loginProcessed (snd (handleWebViewNavigation env u s)) \<and>
    length (requests (snd (handleWebViewNavigation env u s))) \<le> Suc (length (requests s)))"
proof (cases "handleWebViewNavigation env u s = (Inr (), s)")
  case True
  then show ?thesis by simp
next
  case False
  let ?m = "tryCatch (completeLogin env u)
     (\<lambda>e. alert ''Error'' ''Failed to complete login process'')"
  from False have run: "handleWebViewNavigation env u s = ?m (s\<lparr>loginProcessed := True\<rparr>)"
    by (simp add: handleWebViewNavigation_cases split: if_splits)
  obtain r s' where m: "?m (s\<lparr>loginProcessed := True\<rparr>) = (r, s')"
    by (cases "?m (s\<lparr>loginProcessed := True\<rparr>)")
  from oneRequestD [OF oneRequest_landing m] run m show ?thesis by simp
qed

lemma navigations_at_most_once:
  "length (requests (navigations env us s)) \<le> Suc (length (requests s))"
proof (induction us arbitrary: s)
  case Nil
  show ?case by (simp add: navigations_def)
next
  case (Cons u us)
  let ?s' = "snd (handleWebViewNavigation env u s)"
  have unfold: "navigations env (u # us) s = navigations env us ?s'"
    by (simp add: navigations_def)
  from handleWebViewNavigation_step [of env u s] show ?case
  proof
    assume "?s' = s"
    with Cons.IH [of s] unfold show ?thesis by simp
  next
    assume "loginProcessed ?s' \<and> length (requests ?s') \<le> Suc (length (requests s))"
    then show ?thesis by (simp add: unfold navigations_guarded)
  qed
qed

lemma saveSession_accepted:
  assumes "AUTH_TOKEN \<notin> failing (session s)" and "REFRESH_TOKEN \<notin> failing (session s)"
  shows "\<exists>s'. saveSession urlObj accessToken refreshToken s = (Inr (), s') \<and>
              requests s' = requests s \<and> apiPrefix (session s') = apiPrefix (session s)"
  using assms
  by (simp add: saveSession_def onAuth_def setItem_def setInstanceType_def setBaseUrl_def io_defs)

lemma getApiPrefix_onAuth:
  "\<exists>s'. onAuth getApiPrefix s =
           (Inr (if apiPrefix (session s) = [] then CLOUD_INSTANCE_URL @ ''/console/api''
                 else apiPrefix (session s)), s') \<and>
        requests s' = requests s"
  by (simp add: onAuth_def getApiPrefix_def io_defs)

lemma fetchAppList_requests:
  "requests (snd (fetchAppList env prefix accessToken s)) = requests s @ [prefix @ ''/apps'']"
  by (simp add: fetchAppList_def Let_def throw_def ret_def split: response.split body.split)

lemma quiet_requests: "quiet m \<Longrightarrow> requests (snd (m s)) = requests s"
  by (simp add: quiet_def)

lemma andThen_quiet_requests:
  "(\<And>a. quiet (k a)) \<Longrightarrow> requests (snd (andThen m k s)) = requests (snd (m s))"
  by (cases "m s") (auto simp: andThen_def quiet_requests split: sum.split)

lemma tryCatch_quiet_requests:
  "(\<And>e. quiet (h e)) \<Longrightarrow> requests (snd (tryCatch m h s)) = requests (snd (m s))"
  by (cases "m s") (auto simp: tryCatch_def quiet_requests split: sum.split)

lemma completeLogin_requests:
  assumes url: "newURL env u = Some urlObj"
    and keys: "AUTH_TOKEN \<notin> failing (session s)" "REFRESH_TOKEN \<notin> failing (session s)"
  shows "requests (snd (completeLogin env u s)) =
           requests s @ [(if apiPrefix (session s) = [] then CLOUD_INSTANCE_URL @ ''/console/api''
                          else apiPrefix (session s)) @ ''/apps'']"
proof -
  let ?at = "map_of (searchParams urlObj) ''access_token''"
  let ?rt = "map_of (searchParams urlObj) ''refresh_token''"
  let ?prefix = "if apiPrefix (session s) = [] then CLOUD_INSTANCE_URL @ ''/console/api''
                 else apiPrefix (session s)"
  obtain s2 where save: "saveSession urlObj ?at ?rt s = (Inr (), s2)"
    and s2: "requests s2 = requests s" "apiPrefix (session s2) = apiPrefix (session s)"
    using saveSession_accepted [OF keys] by blast
  obtain s3 where pre: "onAuth getApiPrefix s2 = (Inr ?prefix, s3)"
    and s3: "requests s3 = requests s2"
    using getApiPrefix_onAuth [of s2] s2(2) by auto
  have "completeLogin env u s =
          andThen (fetchAppList env ?prefix ?at) (\<lambda>apps. finishLogin apps) s3"
    by (simp add: completeLogin_def Let_def url save pre andThen_def ret_def)
  then show ?thesis
    by (simp add: andThen_quiet_requests quiet_finishLogin fetchAppList_requests s3 s2)
qed

lemma landing_fresh:
  assumes fresh: "\<not> loginProcessed s" and lands: "landsOnApps env u"
    and keys: "AUTH_TOKEN \<notin> failing (session s)" "REFRESH_TOKEN \<notin> failing (session s)"
  shows "loginProcessed (snd (handleWebViewNavigation env u s)) \<and>
         requests (snd (handleWebViewNavigation env u s)) =
           requests s @ [(if apiPrefix (session s) = [] then CLOUD_INSTANCE_URL @ ''/console/api''
                          else apiPrefix (session s)) @ ''/apps'']"
proof -
  let ?m = "tryCatch (completeLogin env u)
     (\<lambda>e. alert ''Error'' ''Failed to complete login process'')"
  let ?s1 = "s\<lparr>loginProcessed := True\<rparr>"
  from lands obtain urlObj where url: "newURL env u = Some urlObj"
    and path: "pathname urlObj = ''/apps''" and ne: "u \<noteq> []"
    by (auto simp: landsOnApps_def split: option.splits)
  have run: "handleWebViewNavigation env u s = ?m ?s1"
    using fresh url path ne by (simp add: handleWebViewNavigation_cases)
  obtain r s' where m: "?m ?s1 = (r, s')" by (cases "?m ?s1")
  have flag: "loginProcessed s'"
    using oneRequestD [OF oneRequest_landing m] by simp
  have "requests (snd (?m ?s1)) = requests (snd (completeLogin env u ?s1))"
    by (rule tryCatch_quiet_requests) (rule quiet_alert)
  also have "\<dots> = requests ?s1 @ [(if apiPrefix (session ?s1) = []
                   then CLOUD_INSTANCE_URL @ ''/console/api''
                   else apiPrefix (session ?s1)) @ ''/apps'']"
    using keys by (intro completeLogin_requests [OF url]) simp_all
  finally show ?thesis using flag run m by simp
qed

lemma not_landing_idle:
  assumes "\<not> landsOnApps env u" and "newURL env u = None \<longrightarrow> \<not> includes_js u ''/apps''"
  shows "handleWebViewNavigation env u s = (Inr (), s)"
  using assms
  by (auto simp: handleWebViewNavigation_cases landsOnApps_def split: option.splits)

lemma navigations_landing_once:
  assumes fresh: "\<not> loginProcessed s"
    and keys: "AUTH_TOKEN \<notin> failing (session s)" "REFRESH_TOKEN \<notin> failing (session s)"
    and lands: "filter (landsOnApps env) us \<noteq> []"
    and parsed: "\<forall>u \<in> set (takeWhile (\<lambda>u. \<not> landsOnApps env u) us).
                   newURL env u = None \<longrightarrow> \<not> includes_js u ''/apps''"
  shows "loginProcessed (navigations env us s) \<and>
      requests (navigations env us s) =
        requests s @ [(if apiPrefix (session s) = [] then CLOUD_INSTANCE_URL @ ''/console/api''
                       else apiPrefix (session s)) @ ''/apps'']"
  using lands parsed
proof (induction us)
  case Nil
  then show ?case by simp
next
  case (Cons u us)
  have unfold: "navigations env (u # us) s =
      navigations env us (snd (handleWebViewNavigation env u s))"
    by (simp add: navigations_def)
  show ?case
  proof (cases "landsOnApps env u")
    case True
    from landing_fresh [OF fresh True keys] show ?thesis
      by (simp add: unfold navigations_guarded)
  next
    case False
    with Cons.prems have "handleWebViewNavigation env u s = (Inr (), s)"
      by (intro not_landing_idle) simp_all
    with False Cons show ?thesis by (simp add: unfold)
  qed
qed

text \<open>
  Whatever navigation events fire, in whatever order, the GET of \<^verbatim>\<open>{apiPrefix}/apps\<close> is
  issued at most once. On a screen whose one-shot flag is still clear, when the landing
  event (the URL parses and its path is \<^verbatim>\<open>/apps\<close>) fires at least once, no event before
  it is taken for a landing by the substring fallback, and the store accepts the two
  token writes, the GET is issued exactly once, to \<^verbatim>\<open>{apiPrefix}/apps\<close>, and the flag is set.
\<close>

lemma navigations_once:
  "length (requests (navigations env us s)) \<le> Suc (length (requests s)) \<and>
   (\<not> loginProcessed s \<and>
    filter (landsOnApps env) us \<noteq> [] \<and>
    (\<forall>u \<in> set (takeWhile (\<lambda>u. \<not> landsOnApps env u) us).
       newURL env u = None \<longrightarrow> \<not> includes_js u ''/apps'') \<and>
    AUTH_TOKEN \<notin> failing (session s) \<and> REFRESH_TOKEN \<notin> failing (session s) \<longrightarrow>
      loginProcessed (navigations env us s) \<and>
      requests (navigations env us s) =
        requests s @ [(if apiPrefix (session s) = [] then CLOUD_INSTANCE_URL @ ''/console/api''
                       else apiPrefix (session s)) @ ''/apps''])"
  using navigations_at_most_once [of env us s] navigations_landing_once [of s env us]
  by blast

text \<open>
  A URL that does not parse never leads to the request: the fallback branch sets the
  flag and then parses the same URL again, which throws again.
\<close>

lemma fallback_issues_no_request:
  assumes "newURL env u = None"
  shows "requests (snd (handleWebViewNavigation env u s)) = requests s \<and>
         loginProcessed (snd (handleWebViewNavigation env u s)) =
           (loginProcessed s \<or> includes_js u ''/apps'')"
proof -
  have "completeLogin env u t = (Inl TypeError, t)" for t
    using assms by (simp add: completeLogin_def andThen_def throw_def)
  then show ?thesis
    using assms
    by (auto simp: handleWebViewNavigation_cases tryCatch_def alert_def modify_def)
qed

text \<open>
  What one landing event leaves behind on the sample platform: the tokens of the URL,
  the instance type and the base URL are stored, the session is marked authenticated,
  the app list is cached and the browser is closed.
\<close>

lemma landing_stores_session:
  "map (asyncStorage (session (navigations samplePlatform [sampleLanding]
          (LoginScreen_mounted (Auth_loaded Map.empty {})))))
     [AUTH_TOKEN, REFRESH_TOKEN, INSTANCE_TYPE, BASE_URL, ''isAuthenticated'', ''apps''] =
     [Some ''abc'', Some ''def'', Some CLOUD, Some ''https://cloud.dify.ai'', Some ''true'',
      Some ''[]''] \<and>
   instanceType (session (navigations samplePlatform [sampleLanding]
          (LoginScreen_mounted (Auth_loaded Map.empty {})))) = CLOUD \<and>
   baseUrl (session (navigations samplePlatform [sampleLanding]
          (LoginScreen_mounted (Auth_loaded Map.empty {})))) = ''https://cloud.dify.ai'' \<and>
   \<not> showWebView (navigations samplePlatform [sampleLanding]
          (LoginScreen_mounted (Auth_loaded Map.empty {}))) \<and>
   replaced (navigations samplePlatform [sampleLanding]
          (LoginScreen_mounted (Auth_loaded Map.empty {}))) = [''Login'']"
  by (simp add: navigations_def handleWebViewNavigation_def completeLogin_def saveSession_def
      fetchAppList_def finishLogin_def onAuth_def setItem_def setInstanceType_def
      setBaseUrl_def getApiPrefix_def setIsAuthenticated_def alert_def truthy_def orElse_def
      ok_def samplePlatform_def sampleLanding_def LoginScreen_mounted_def Auth_loaded_def
      io_defs Let_def)

text \<open>
  C7. The one-shot flag does not make the landing be processed exactly once. An event
  whose URL does not parse but contains \<^verbatim>\<open>/apps\<close> takes the fallback branch, which sets the
  flag and then parses the same URL again; that throws, no request is issued, and the
  flag stays set, so the landing events that follow are dropped. On the events
  (relative landing URL, landing, landing) the landing event fires twice and the GET of
  \<^verbatim>\<open>{apiPrefix}/apps\<close> is issued zero times; on (landing, landing) alone it is issued once.
\<close>

theorem fallback_consumes_guard:
  "newURL samplePlatform sampleRelative = None \<and>
   includes_js sampleRelative ''/apps'' \<and>
   filter (landsOnApps samplePlatform) [sampleRelative, sampleLanding, sampleLanding] =
     [sampleLanding, sampleLanding] \<and>
   requests (navigations samplePlatform [sampleRelative, sampleLanding, sampleLanding]
               (LoginScreen_mounted (Auth_loaded Map.empty {}))) = [] \<and>
   loginProcessed (navigations samplePlatform [sampleRelative, sampleLanding, sampleLanding]
               (LoginScreen_mounted (Auth_loaded Map.empty {}))) \<and>
   requests (navigations samplePlatform [sampleLanding, sampleLanding]
               (LoginScreen_mounted (Auth_loaded Map.empty {}))) =
     [''https://cloud.dify.ai/console/api/apps'']"
proof -
  let ?s = "LoginScreen_mounted (Auth_loaded Map.empty {})"
  have rel: "newURL samplePlatform sampleRelative = None"
    by (simp add: samplePlatform_def sampleRelative_def sampleLanding_def)
  have inc: "includes_js sampleRelative ''/apps''"
    by (simp add: sampleRelative_def)
  have lands: "landsOnApps samplePlatform sampleLanding"
    "\<not> landsOnApps samplePlatform sampleRelative"
    by (simp_all add: landsOnApps_def samplePlatform_def sampleLanding_def sampleRelative_def)
  let ?s1 = "snd (handleWebViewNavigation samplePlatform sampleRelative ?s)"
  from fallback_issues_no_request [OF rel, of ?s] inc
  have s1: "requests ?s1 = []" "loginProcessed ?s1"
    by (simp_all add: LoginScreen_mounted_def)
  have run: "navigations samplePlatform [sampleRelative, sampleLanding, sampleLanding] ?s = ?s1"
    using navigations_guarded [OF s1(2), of samplePlatform "[sampleLanding, sampleLanding]"]
    by (simp add: navigations_def)
  have once: "requests (navigations samplePlatform [sampleLanding, sampleLanding] ?s) =
      [''https://cloud.dify.ai/console/api/apps'']"
    using lands navigations_once [of samplePlatform "[sampleLanding, sampleLanding]" ?s]
    by (simp add: LoginScreen_mounted_def Auth_loaded_def)
  from rel inc lands s1 run once show ?thesis by simp
qed

end
